theory Spec2Isabelle
  imports Main
begin

section \<open>Azure Monitor trace exporter: data model\<close>

text \<open>
  The exporter of \<^verbatim>\<open>factory.go\<close> and \<^verbatim>\<open>traceexporter.go\<close>, as state-passing functions.
  Go pointers to \<^verbatim>\<open>zap.Logger\<close>, \<^verbatim>\<open>factory\<close> and \<^verbatim>\<open>traceExporter\<close> are taken to be non-nil and
  are modelled by the values they point to. So is the \<^verbatim>\<open>*Config\<close> that \<^verbatim>\<open>getTransportChannel\<close>
  and \<^verbatim>\<open>newTraceExporter\<close> are given; the one place where a nil \<^verbatim>\<open>*Config\<close> can come in, the
  interface value handed to \<^verbatim>\<open>createTraceExporter\<close>, has a case of its own. A configuration
  is not mutated after it has been handed to the factory. Go \<^verbatim>\<open>int\<close> is \<^typ>\<open>int\<close>: the only arithmetic is on span
  counts, which are bounded by the size of the batch held in memory.
\<close>

type_synonym Duration = int \<comment> \<open>\<^verbatim>\<open>time.Duration\<close>: nanoseconds\<close>

definition Second :: Duration where
  "Second = 1000000000"

text \<open>
  The fields of \<^verbatim>\<open>Config\<close> are those that \<^verbatim>\<open>factory.go\<close> and \<^verbatim>\<open>traceexporter.go\<close> read and write;
  \<^verbatim>\<open>TypeVal\<close> and \<^verbatim>\<open>NameVal\<close> are the embedded \<^verbatim>\<open>configmodels.ExporterSettings\<close>.
\<close>

record Config =
  TypeVal :: string
  NameVal :: string
  Endpoint :: string
  InstrumentationKey :: string
  MaxBatchSize :: int
  MaxBatchInterval :: Duration
  ShutdownTimeout :: Duration

definition typeStr :: string where
  "typeStr = ''azuremonitor''"

definition defaultEndpoint :: string where
  "defaultEndpoint = ''https://dc.services.visualstudio.com/v2/track''"

text \<open>\<^verbatim>\<open>createDefaultConfig\<close> sets no instrumentation key: the field keeps Go's zero value.\<close>

definition createDefaultConfig :: Config where
  "createDefaultConfig =
     \<lparr>TypeVal = typeStr, NameVal = typeStr, Endpoint = defaultEndpoint,
      InstrumentationKey = [], MaxBatchSize = 1024,
      MaxBatchInterval = 10 * Second, ShutdownTimeout = 5 * Second\<rparr>"

text \<open>
  A value of the interface \<^verbatim>\<open>configmodels.Exporter\<close>: this package's \<^verbatim>\<open>*Config\<close>, either
  pointing to a configuration or nil (\<^verbatim>\<open>(*Config)(nil)\<close>); a value of some other implementing
  type (named by its type); or the nil interface. The type assertion \<^verbatim>\<open>cfg.(*Config)\<close>
  succeeds on the first two, the nil pointer included, and fails on the last two.
\<close>

datatype ExporterCfg = OwnConfig Config | NilOwnConfig | ForeignConfig string | NilConfig

text \<open>
  A call either returns or ends in a run-time panic. The only panic in reach is Go's
  \<^verbatim>\<open>invalid memory address or nil pointer dereference\<close>.
\<close>

datatype RuntimeError = nilPointerDereference

datatype 'a Completion = Returns 'a | Panics RuntimeError

text \<open>
  Errors. \<^verbatim>\<open>errUnexpectedConfigurationType\<close> is the package's own variable;
  \<open>ErrorNew msg\<close> is any other error value, \<open>Permanent e\<close> is \<^verbatim>\<open>consumererror.Permanent(e)\<close>.
\<close>

datatype error = errUnexpectedConfigurationType | ErrorNew string | Permanent error

subsection \<open>The logger\<close>

datatype Level = DebugLevel | InfoLevel | WarnLevel | ErrorLevel

fun levelRank :: "Level \<Rightarrow> nat" where
  "levelRank DebugLevel = 0"
| "levelRank InfoLevel = 1"
| "levelRank WarnLevel = 2"
| "levelRank ErrorLevel = 3"

text \<open>A \<^verbatim>\<open>zap.Logger\<close>: its name and the lowest level its core has enabled.\<close>

record ZapLogger =
  loggerName :: string
  minLevel :: Level

datatype Field =
    IntField string int
  | ErrorField "error option"
  | DurationStringField string Duration \<comment> \<open>\<^verbatim>\<open>zap.String(key, d.String())\<close>\<close>

type_synonym LogCall = "ZapLogger \<times> Level \<times> string \<times> Field list"

text \<open>\<^verbatim>\<open>logger.Check(lvl, msg)\<close> is non-nil exactly when the logger has \<open>lvl\<close> enabled.\<close>

definition Check :: "ZapLogger \<Rightarrow> Level \<Rightarrow> string \<Rightarrow> (Level \<times> string) option" where
  "Check l lvl msg =
     (if levelRank (minLevel l) \<le> levelRank lvl then Some (lvl, msg) else None)"

subsection \<open>The telemetry library and the observable world\<close>

record TelemetryConfiguration =
  tcInstrumentationKey :: string
  EndpointUrl :: string
  tcMaxBatchSize :: int
  tcMaxBatchInterval :: Duration

text \<open>
  An envelope, as far as the exporter touches it: the instrumentation key it stamps, and
  what the builder filled in.
\<close>

record 'd Envelope =
  IKey :: string
  Name :: string
  Time :: string
  Data :: 'd

type_synonym Chan = nat \<comment> \<open>a transport channel, by the index of the client that owns it\<close>

datatype 'd ChannelCall = SendCall "'d Envelope" | CloseCall "Duration list"

text \<open>
  The diagnostics callback of \<^verbatim>\<open>getTransportChannel\<close> is a closure over the logger; it is the
  only callback the package registers.
\<close>

datatype Listener = DebugForwarder ZapLogger

text \<open>
  Everything the exporter does to its collaborators: the telemetry clients constructed (a
  channel is the index of its client), the diagnostics listeners registered, the calls
  received by transport channels and the calls received by loggers, each in order.
\<close>

record 'd World =
  clients :: "TelemetryConfiguration list"
  listeners :: "Listener list"
  calls :: "(Chan \<times> 'd ChannelCall) list"
  logged :: "LogCall list"

definition Debug :: "ZapLogger \<Rightarrow> string \<Rightarrow> Field list \<Rightarrow> 'd World \<Rightarrow> 'd World" where
  "Debug l msg fs w = w\<lparr>logged := logged w @ [(l, DebugLevel, msg, fs)]\<rparr>"

definition Info :: "ZapLogger \<Rightarrow> string \<Rightarrow> Field list \<Rightarrow> 'd World \<Rightarrow> 'd World" where
  "Info l msg fs w = w\<lparr>logged := logged w @ [(l, InfoLevel, msg, fs)]\<rparr>"

definition Send :: "Chan \<Rightarrow> 'd Envelope \<Rightarrow> 'd World \<Rightarrow> 'd World" where
  "Send ch envelope w = w\<lparr>calls := calls w @ [(ch, SendCall envelope)]\<rparr>"

text \<open>
  The completion signal returned by \<^verbatim>\<open>Close\<close>: it fires after some time, or never. When it
  fires is the transport's business, so \<open>Close\<close> takes the transport's behaviour as an
  argument.
\<close>

datatype Signal = FiresAfter nat | NeverFires

definition Close ::
  "(Chan \<Rightarrow> Duration list \<Rightarrow> 'd World \<Rightarrow> Signal) \<Rightarrow> Chan \<Rightarrow> Duration list \<Rightarrow> 'd World
     \<Rightarrow> Signal \<times> 'd World" where
  "Close transport ch timeouts w =
     (transport ch timeouts w, w\<lparr>calls := calls w @ [(ch, CloseCall timeouts)]\<rparr>)"

definition NewTelemetryConfiguration :: "string \<Rightarrow> TelemetryConfiguration" where
  "NewTelemetryConfiguration iKey =
     \<lparr>tcInstrumentationKey = iKey, EndpointUrl = defaultEndpoint,
      tcMaxBatchSize = 1024, tcMaxBatchInterval = 10 * Second\<rparr>"

text \<open>A new client owns a new channel; \<open>Channel\<close> of a client is that channel.\<close>

definition NewTelemetryClientFromConfig ::
  "TelemetryConfiguration \<Rightarrow> 'd World \<Rightarrow> nat \<times> 'd World" where
  "NewTelemetryClientFromConfig tconf w =
     (length (clients w), w\<lparr>clients := clients w @ [tconf]\<rparr>)"

definition Channel :: "nat \<Rightarrow> Chan" where
  "Channel client = client"

definition NewDiagnosticsMessageListener :: "Listener \<Rightarrow> 'd World \<Rightarrow> 'd World" where
  "NewDiagnosticsMessageListener l w = w\<lparr>listeners := listeners w @ [l]\<rparr>"

text \<open>Running a registered callback on a message: \<^verbatim>\<open>logger.Debug(msg); return nil\<close>.\<close>

fun invoke :: "Listener \<Rightarrow> string \<Rightarrow> 'd World \<Rightarrow> error option \<times> 'd World" where
  "invoke (DebugForwarder l) msg w = (None, Debug l msg [] w)"

section \<open>traceexporter.go\<close>

record traceExporter =
  config :: Config
  transportChannel :: Chan
  logger :: ZapLogger
  shutdownTimeout :: Duration

record traceVisitor =
  processed :: int
  err :: "error option"
  exporter :: traceExporter

text \<open>
  A batch: resource groups, each with its instrumentation-library groups, each with its
  spans. \<open>SpanCount\<close> is the host's count of all spans of the batch.
\<close>

type_synonym ('r, 'l, 's) Traces = "('r \<times> ('l \<times> 's list) list) list"

definition SpanCount :: "('r, 'l, 's) Traces \<Rightarrow> int" where
  "SpanCount traceData =
     int (sum_list (map (\<lambda>(resource, ils). sum_list (map (\<lambda>(il, spans). length spans) ils)) traceData))"

text \<open>
  Modelled from the spec: \<^verbatim>\<open>spanToEnvelope\<close> is not in the two source files. It is taken as an
  argument \<open>spanToEnvelope\<close> of the functions below, with the contract of the spec's envelope
  builder: a pure function that returns an envelope or an error.
\<close>

type_synonym ('r, 'l, 's, 'd) Builder = "'r \<Rightarrow> 'l \<Rightarrow> 's \<Rightarrow> ZapLogger \<Rightarrow> error + 'd Envelope"

definition visit ::
  "('r, 'l, 's, 'd) Builder \<Rightarrow> traceVisitor \<Rightarrow> 'r \<Rightarrow> 'l \<Rightarrow> 's \<Rightarrow> 'd World
     \<Rightarrow> bool \<times> traceVisitor \<times> 'd World" where
  "visit spanToEnvelope v resource instrumentationLibrary span w =
     (case spanToEnvelope resource instrumentationLibrary span (logger (exporter v)) of
        Inl e \<Rightarrow> (False, v\<lparr>err := Some (Permanent e)\<rparr>, w)
      | Inr envelope \<Rightarrow>
          (let envelope' = envelope\<lparr>IKey := InstrumentationKey (config (exporter v))\<rparr>;
               w' = Send (transportChannel (exporter v)) envelope' w
           in (True, v\<lparr>processed := processed v + 1\<rparr>, w')))"

text \<open>
  Modelled from the spec: \<^verbatim>\<open>Accept\<close>, the batch walker, is not in the two source files. The
  spec: it visits every (resource, library, span) triple in input order, and a \<open>False\<close>
  answer of the visitor short-circuits the remainder of the batch. The three functions are
  the three nested loops; each returns whether the walk goes on.
\<close>

type_synonym ('r, 'l, 's, 'v, 'w) Visit = "'v \<Rightarrow> 'r \<Rightarrow> 'l \<Rightarrow> 's \<Rightarrow> 'w \<Rightarrow> bool \<times> 'v \<times> 'w"

fun acceptSpans ::
  "('r, 'l, 's, 'v, 'w) Visit \<Rightarrow> 'r \<Rightarrow> 'l \<Rightarrow> 's list \<Rightarrow> 'v \<Rightarrow> 'w \<Rightarrow> bool \<times> 'v \<times> 'w" where
  "acceptSpans vis resource il [] v w = (True, v, w)"
| "acceptSpans vis resource il (span # spans) v w =
     (case vis v resource il span w of
        (ok, v', w') \<Rightarrow> if ok then acceptSpans vis resource il spans v' w' else (False, v', w'))"

fun acceptLibraries ::
  "('r, 'l, 's, 'v, 'w) Visit \<Rightarrow> 'r \<Rightarrow> ('l \<times> 's list) list \<Rightarrow> 'v \<Rightarrow> 'w \<Rightarrow> bool \<times> 'v \<times> 'w" where
  "acceptLibraries vis resource [] v w = (True, v, w)"
| "acceptLibraries vis resource ((il, spans) # ils) v w =
     (case acceptSpans vis resource il spans v w of
        (ok, v', w') \<Rightarrow> if ok then acceptLibraries vis resource ils v' w' else (False, v', w'))"

fun acceptResources ::
  "('r, 'l, 's, 'v, 'w) Visit \<Rightarrow> ('r, 'l, 's) Traces \<Rightarrow> 'v \<Rightarrow> 'w \<Rightarrow> bool \<times> 'v \<times> 'w" where
  "acceptResources vis [] v w = (True, v, w)"
| "acceptResources vis ((resource, ils) # rss) v w =
     (case acceptLibraries vis resource ils v w of
        (ok, v', w') \<Rightarrow> if ok then acceptResources vis rss v' w' else (False, v', w'))"

definition Accept ::
  "('r, 'l, 's) Traces \<Rightarrow> ('r, 'l, 's, 'v, 'w) Visit \<Rightarrow> 'v \<Rightarrow> 'w \<Rightarrow> 'v \<times> 'w" where
  "Accept traces vis v w = snd (acceptResources vis traces v w)"

definition onTraceData ::
  "('r, 'l, 's, 'd) Builder \<Rightarrow> traceExporter \<Rightarrow> ('r, 'l, 's) Traces \<Rightarrow> 'd World
     \<Rightarrow> (int \<times> error option) \<times> 'd World" where
  "onTraceData spanToEnvelope exp traceData w =
     (let spanCount = SpanCount traceData;
          w1 = Debug (logger exp) ''Exporting spans'' [IntField ''Count'' spanCount] w
      in if spanCount = 0 then ((0, None), w1)
         else
           (case Accept traceData (visit spanToEnvelope)
                   \<lparr>processed = 0, err = None, exporter = exp\<rparr> w1 of
              (visitor, w2) \<Rightarrow>
                (let w3 = Debug (logger exp) ''Exported spans''
                            [IntField ''Dropped'' (spanCount - processed visitor),
                             ErrorField (err visitor)] w2
                 in ((spanCount - processed visitor, err visitor), w3))))"

text \<open>
  \<^verbatim>\<open>Shutdown\<close> either returns, after waiting for the signal, or waits for ever.
\<close>

datatype Outcome = Returned nat "error option" | Blocked

definition Shutdown ::
  "(Chan \<Rightarrow> Duration list \<Rightarrow> 'd World \<Rightarrow> Signal) \<Rightarrow> traceExporter \<Rightarrow> 'd World
     \<Rightarrow> Outcome \<times> 'd World" where
  "Shutdown transport exp w =
     (let w1 = Info (logger exp) ''Shutting down trace exporter''
                 [DurationStringField ''Shutdown Timeout'' (shutdownTimeout exp)] w
      in case Close transport (transportChannel exp) [shutdownTimeout exp] w1 of
           (FiresAfter d, w2) \<Rightarrow> (Returned d None, w2)
         | (NeverFires, w2) \<Rightarrow> (Blocked, w2))"

text \<open>
  \<^verbatim>\<open>exporterhelper.NewTraceExporter\<close> belongs to the host: it is the argument \<open>helper\<close>. It
  returns the wrapped exporter or an error of its own, which cannot be this package's
  unexported \<^verbatim>\<open>errUnexpectedConfigurationType\<close>: its errors are messages, injected by
  \<open>ErrorNew\<close>.
\<close>

type_synonym 'x Helper = "Config \<Rightarrow> ZapLogger \<Rightarrow> traceExporter \<Rightarrow> string + 'x"

definition newTraceExporter ::
  "'x Helper \<Rightarrow> Config \<Rightarrow> Chan \<Rightarrow> ZapLogger \<Rightarrow> error + 'x" where
  "newTraceExporter helper conf tc lg =
     (let exp = \<lparr>config = conf, transportChannel = tc, logger = lg,
                 shutdownTimeout = ShutdownTimeout conf\<rparr>
      in case helper conf lg exp of Inl msg \<Rightarrow> Inl (ErrorNew msg) | Inr x \<Rightarrow> Inr x)"

section \<open>factory.go\<close>

record factory =
  tChannel :: "Chan option"

definition NewFactory :: factory where
  "NewFactory = \<lparr>tChannel = None\<rparr>"

record ExporterCreateParams =
  Logger :: ZapLogger

definition getTransportChannel ::
  "factory \<Rightarrow> Config \<Rightarrow> ZapLogger \<Rightarrow> 'd World \<Rightarrow> Chan \<times> factory \<times> 'd World" where
  "getTransportChannel f exporterConfig lg w =
     (case tChannel f of
        None \<Rightarrow>
          (let telemetryConfiguration =
                 (NewTelemetryConfiguration (InstrumentationKey exporterConfig))
                   \<lparr>EndpointUrl := Endpoint exporterConfig,
                    tcMaxBatchSize := MaxBatchSize exporterConfig,
                    tcMaxBatchInterval := MaxBatchInterval exporterConfig\<rparr>
           in case NewTelemetryClientFromConfig telemetryConfiguration w of
                (telemetryClient, w1) \<Rightarrow>
                  (let ch = Channel telemetryClient;
                       w2 = (case Check lg DebugLevel [] of
                               Some checkedEntry \<Rightarrow>
                                 NewDiagnosticsMessageListener (DebugForwarder lg) w1
                             | None \<Rightarrow> w1)
                   in (ch, f\<lparr>tChannel := Some ch\<rparr>, w2)))
      | Some ch \<Rightarrow> (ch, f, w))"

text \<open>
  On a nil \<^verbatim>\<open>*Config\<close> the assertion gives \<^verbatim>\<open>ok = true\<close> and the nil pointer, and the call goes
  on. If the factory has no channel yet, \<^verbatim>\<open>getTransportChannel\<close> reads
  \<^verbatim>\<open>exporterConfig.InstrumentationKey\<close> as the first thing in its branch, before it constructs
  anything. If the factory has a channel, \<^verbatim>\<open>getTransportChannel\<close> returns it without a look at
  the configuration, and \<^verbatim>\<open>newTraceExporter\<close> reads \<^verbatim>\<open>config.ShutdownTimeout\<close> while it fills in
  the exporter. Either read dereferences nil: the call panics, with the factory and the
  telemetry library as they were.
\<close>

definition createTraceExporter ::
  "'x Helper \<Rightarrow> factory \<Rightarrow> ExporterCreateParams \<Rightarrow> ExporterCfg \<Rightarrow> 'd World
     \<Rightarrow> (error + 'x) Completion \<times> factory \<times> 'd World" where
  "createTraceExporter helper f params cfg w =
     (case cfg of
        OwnConfig exporterConfig \<Rightarrow>
          (case getTransportChannel f exporterConfig (Logger params) w of
             (tc, f', w') \<Rightarrow>
               (Returns (newTraceExporter helper exporterConfig tc (Logger params)), f', w'))
      | NilOwnConfig \<Rightarrow> (Panics nilPointerDereference, f, w)
      | ForeignConfig other \<Rightarrow> (Returns (Inl errUnexpectedConfigurationType), f, w)
      | NilConfig \<Rightarrow> (Returns (Inl errUnexpectedConfigurationType), f, w))"

text \<open>
  The host calling \<^verbatim>\<open>createTraceExporter\<close> on one factory, call after call; after a call
  that panicked (and was recovered from) the factory is as that call left it.
\<close>

fun createAll ::
  "'x Helper \<Rightarrow> factory \<Rightarrow> (ExporterCreateParams \<times> ExporterCfg) list \<Rightarrow> 'd World
     \<Rightarrow> (error + 'x) Completion list \<times> factory \<times> 'd World" where
  "createAll helper f [] w = ([], f, w)"
| "createAll helper f ((params, cfg) # rest) w =
     (case createTraceExporter helper f params cfg w of
        (r, f', w') \<Rightarrow>
          (case createAll helper f' rest w' of (rs, f'', w'') \<Rightarrow> (r # rs, f'', w'')))"

section \<open>Traversal order\<close>

text \<open>The triples of a batch in input order, and the walk over such a list.\<close>

definition triples :: "('r, 'l, 's) Traces \<Rightarrow> ('r \<times> 'l \<times> 's) list" where
  "triples traceData =
     concat (map (\<lambda>(resource, ils).
       concat (map (\<lambda>(il, spans). map (\<lambda>span. (resource, il, span)) spans) ils)) traceData)"

fun walk ::
  "('r, 'l, 's, 'v, 'w) Visit \<Rightarrow> ('r \<times> 'l \<times> 's) list \<Rightarrow> 'v \<Rightarrow> 'w \<Rightarrow> bool \<times> 'v \<times> 'w" where
  "walk vis [] v w = (True, v, w)"
| "walk vis ((resource, il, span) # ts) v w =
     (case vis v resource il span w of
        (ok, v', w') \<Rightarrow> if ok then walk vis ts v' w' else (False, v', w'))"

text \<open>What the builder says of a triple, for an exporter, and the call a success turns into.\<close>

definition built ::
  "('r, 'l, 's, 'd) Builder \<Rightarrow> traceExporter \<Rightarrow> 'r \<times> 'l \<times> 's \<Rightarrow> error + 'd Envelope" where
  "built spanToEnvelope exp t =
     (case t of (resource, il, span) \<Rightarrow> spanToEnvelope resource il span (logger exp))"

definition sendOf ::
  "('r, 'l, 's, 'd) Builder \<Rightarrow> traceExporter \<Rightarrow> 'r \<times> 'l \<times> 's \<Rightarrow> Chan \<times> 'd ChannelCall" where
  "sendOf spanToEnvelope exp t =
     (transportChannel exp,
      SendCall ((projr (built spanToEnvelope exp t))\<lparr>IKey := InstrumentationKey (config exp)\<rparr>))"

section \<open>The calls that reach the transport channel of a factory\<close>

text \<open>
  Of a sequence of \<^verbatim>\<open>createTraceExporter\<close> calls, those that pass the type assertion with a
  configuration to read, and so get through \<^verbatim>\<open>getTransportChannel\<close>: the configuration and the
  logger each of them hands over.
\<close>

fun ownCalls :: "(ExporterCreateParams \<times> ExporterCfg) list \<Rightarrow> (Config \<times> ZapLogger) list" where
  "ownCalls [] = []"
| "ownCalls ((params, OwnConfig c) # rest) = (c, Logger params) # ownCalls rest"
| "ownCalls ((params, NilOwnConfig) # rest) = ownCalls rest"
| "ownCalls ((params, ForeignConfig other) # rest) = ownCalls rest"
| "ownCalls ((params, NilConfig) # rest) = ownCalls rest"

text \<open>How one call ends when the exporter it makes is bound to the channel \<open>ch\<close>.\<close>

definition created ::
  "'x Helper \<Rightarrow> Chan \<Rightarrow> ExporterCreateParams \<times> ExporterCfg \<Rightarrow> (error + 'x) Completion" where
  "created helper ch call =
     (case call of
        (params, OwnConfig c) \<Rightarrow>
          Returns
            (case helper c (Logger params)
                    \<lparr>config = c, transportChannel = ch, logger = Logger params,
                     shutdownTimeout = ShutdownTimeout c\<rparr> of
               Inl msg \<Rightarrow> Inl (ErrorNew msg)
             | Inr x \<Rightarrow> Inr x)
      | (params, NilOwnConfig) \<Rightarrow> Panics nilPointerDereference
      | (params, ForeignConfig other) \<Rightarrow> Returns (Inl errUnexpectedConfigurationType)
      | (params, NilConfig) \<Rightarrow> Returns (Inl errUnexpectedConfigurationType))"

definition telemetryConfigurationOf :: "Config \<Rightarrow> TelemetryConfiguration" where
  "telemetryConfigurationOf c =
     \<lparr>tcInstrumentationKey = InstrumentationKey c, EndpointUrl = Endpoint c,
      tcMaxBatchSize = MaxBatchSize c, tcMaxBatchInterval = MaxBatchInterval c\<rparr>"

definition diagnosticsFor :: "ZapLogger \<Rightarrow> Listener list" where
  "diagnosticsFor lg = (if minLevel lg = DebugLevel then [DebugForwarder lg] else [])"

section \<open>Sample inputs\<close>

definition emptyWorld :: "nat World" where
  "emptyWorld = \<lparr>clients = [], listeners = [], calls = [], logged = []\<rparr>"

text \<open>A builder that rejects span 2 and turns any other span into an unstamped envelope.\<close>

definition sampleBuilder :: "(unit, unit, nat, nat) Builder" where
  "sampleBuilder resource il span lg =
     (if span = 2 then Inl (ErrorNew ''end before start'')
      else Inr \<lparr>IKey = [], Name = ''Request'', Time = [], Data = span\<rparr>)"

definition sampleLogger :: "Level \<Rightarrow> ZapLogger" where
  "sampleLogger lvl = \<lparr>loggerName = ''collector'', minLevel = lvl\<rparr>"

text \<open>The exporter that the factory makes of the default configuration with the key set.\<close>

definition sampleExporter :: "string \<Rightarrow> traceExporter" where
  "sampleExporter key =
     \<lparr>config = createDefaultConfig\<lparr>InstrumentationKey := key\<rparr>, transportChannel = 0,
      logger = sampleLogger InfoLevel, shutdownTimeout = 5 * Second\<rparr>"

text \<open>
  Three calls on one factory: a nil configuration, then two configurations that differ in
  their key, the first with a debug logger, the second with an info logger.
\<close>

definition sampleCalls :: "(ExporterCreateParams \<times> ExporterCfg) list" where
  "sampleCalls =
     [(\<lparr>Logger = sampleLogger InfoLevel\<rparr>, NilConfig),
      (\<lparr>Logger = sampleLogger DebugLevel\<rparr>,
       OwnConfig (createDefaultConfig\<lparr>InstrumentationKey := ''first''\<rparr>)),
      (\<lparr>Logger = sampleLogger InfoLevel\<rparr>,
       OwnConfig (createDefaultConfig\<lparr>InstrumentationKey := ''second''\<rparr>))]"

lemmas sample_defs = emptyWorld_def sampleBuilder_def sampleLogger_def sampleExporter_def
  createDefaultConfig_def

lemmas eval_defs = onTraceData_def SpanCount_def Accept_def visit_def Debug_def Send_def
  triples_def built_def sendOf_def

section \<open>The walk is a walk over the triples in input order\<close>

lemma walk_append:
  "walk vis (xs @ ys) v w =
     (case walk vis xs v w of
        (ok, v', w') \<Rightarrow> if ok then walk vis ys v' w' else (False, v', w'))"
  by (induction xs arbitrary: v w) (auto split: prod.splits)

lemma acceptSpans_walk:
  "acceptSpans vis resource il spans v w =
     walk vis (map (\<lambda>span. (resource, il, span)) spans) v w"
  by (induction spans arbitrary: v w) (auto split: prod.splits)

lemma acceptLibraries_walk:
  "acceptLibraries vis resource ils v w =
     walk vis (concat (map (\<lambda>(il, spans). map (\<lambda>span. (resource, il, span)) spans) ils)) v w"
  by (induction ils arbitrary: v w)
     (auto simp: walk_append acceptSpans_walk split: prod.splits)

lemma acceptResources_walk:
  "acceptResources vis traceData v w = walk vis (triples traceData) v w"
  unfolding triples_def
  by (induction traceData arbitrary: v w)
     (auto simp: walk_append acceptLibraries_walk split: prod.splits)

lemma Accept_walk: "Accept traceData vis v w = snd (walk vis (triples traceData) v w)"
  by (simp add: Accept_def acceptResources_walk)

lemma length_triples_inner:
  "length (concat (map (\<lambda>(il, spans). map (\<lambda>span. (resource, il, span)) spans) ils)) =
     sum_list (map (\<lambda>(il, spans). length spans) ils)"
  by (induction ils) auto

lemma SpanCount_triples: "SpanCount traceData = int (length (triples traceData))"
  unfolding SpanCount_def triples_def
  by (induction traceData) (auto simp: length_triples_inner)

text \<open>
  The visitor on a list of triples: it sends the envelopes of the longest prefix that the
  builder accepts, counts them, and keeps the error of the first triple it rejects.
\<close>

lemma walk_visit:
  "walk (visit b) ts v w =
     (let pre = takeWhile (\<lambda>t. \<not> isl (built b (exporter v) t)) ts in
      (length pre = length ts,
       \<lparr>processed = processed v + int (length pre),
        err = (if length pre < length ts
               then Some (Permanent (projl (built b (exporter v) (ts ! length pre))))
               else err v),
        exporter = exporter v\<rparr>,
       w\<lparr>calls := calls w @ map (sendOf b (exporter v)) pre\<rparr>))"
proof (induction ts arbitrary: v w)
  case Nil
  show ?case by simp
next
  case (Cons t ts)
  obtain r l s where t: "t = (r, l, s)" by (cases t)
  show ?case
  proof (cases "b r l s (logger (exporter v))")
    case (Inl e)
    then have hb: "built b (exporter v) t = Inl e" by (simp add: built_def t)
    show ?thesis using Inl hb by (simp add: t visit_def)
  next
    case (Inr env)
    then have hb: "built b (exporter v) t = Inr env" by (simp add: built_def t)
    have step: "visit b v r l s w =
      (True, v\<lparr>processed := processed v + 1\<rparr>,
       w\<lparr>calls := calls w @ [sendOf b (exporter v) t]\<rparr>)"
      using Inr hb by (simp add: visit_def sendOf_def Send_def)
    show ?thesis
      using hb by (simp add: t step Cons.IH Let_def)
  qed
qed

lemma onTraceData_result:
  "fst (onTraceData b e traceData w) =
     (let ts = triples traceData;
          n = length (takeWhile (\<lambda>t. \<not> isl (built b e t)) ts)
      in (int (length ts) - int n,
          if n < length ts then Some (Permanent (projl (built b e (ts ! n)))) else None))"
  by (cases "triples traceData = []")
     (simp_all add: onTraceData_def SpanCount_triples Accept_walk walk_visit Let_def
        split: prod.splits)

lemma onTraceData_calls:
  "calls (snd (onTraceData b e traceData w)) =
     calls w @ map (sendOf b e) (takeWhile (\<lambda>t. \<not> isl (built b e t)) (triples traceData))"
  by (cases "triples traceData = []")
     (simp_all add: onTraceData_def SpanCount_triples Accept_walk walk_visit Let_def Debug_def
        split: prod.splits)

section \<open>Consuming a batch\<close>

text \<open>
  C1. If, in traversal order, the builder first fails at the \<open>k\<close>-th span (counted from 0)
  with the error \<open>er\<close>, then \<^verbatim>\<open>onTraceData\<close> returns \<open>dropped = SpanCount - k\<close> and the error
  \<open>Permanent er\<close>, and the transport channel of the exporter receives exactly \<open>k\<close> \<^verbatim>\<open>Send\<close>
  calls: the stamped envelopes of the first \<open>k\<close> spans, and nothing for the spans from the
  \<open>k\<close>-th on.
\<close>

theorem onTraceData_first_failure:
  assumes "k < length (triples traceData)"
    and "built b e (triples traceData ! k) = Inl er"
    and "\<forall>i<k. \<not> isl (built b e (triples traceData ! i))"
  shows "fst (onTraceData b e traceData w) = (SpanCount traceData - int k, Some (Permanent er))
       \<and> calls (snd (onTraceData b e traceData w)) =
           calls w @ map (sendOf b e) (take k (triples traceData))
       \<and> length (map (sendOf b e) (take k (triples traceData))) = k"
proof -
  let ?P = "\<lambda>t. \<not> isl (built b e t)"
  have tw: "takeWhile ?P (triples traceData) = take k (triples traceData)"
    using assms by (intro takeWhile_eq_take_P_nth) auto
  have len: "length (takeWhile ?P (triples traceData)) = k"
    using assms(1) by (simp add: tw)
  show ?thesis
    using assms(1,2)
    by (simp add: onTraceData_result onTraceData_calls len tw SpanCount_triples Let_def)
qed

text \<open>
  Four spans in three groups of two resources, the second span rejected: one \<^verbatim>\<open>Send\<close>, three
  spans dropped, and the walk does not go on into the later groups.
\<close>

theorem onTraceData_first_failure_witness:
  "fst (onTraceData sampleBuilder (sampleExporter ''ikey'')
          [((), [((), [1]), ((), [2, 3])]), ((), [((), [4])])] emptyWorld)
     = (3, Some (Permanent (ErrorNew ''end before start'')))
   \<and> calls (snd (onTraceData sampleBuilder (sampleExporter ''ikey'')
          [((), [((), [1]), ((), [2, 3])]), ((), [((), [4])])] emptyWorld))
     = [(0, SendCall \<lparr>IKey = ''ikey'', Name = ''Request'', Time = [], Data = 1\<rparr>)]"
  using onTraceData_first_failure [of 1 "[((), [((), [1]), ((), [2, 3])]), ((), [((), [4])])]"
      sampleBuilder "sampleExporter ''ikey''" "ErrorNew ''end before start''" emptyWorld]
  by (simp add: sample_defs triples_def built_def sendOf_def SpanCount_def)

text \<open>
  C2. If the builder succeeds on every span of the batch, \<^verbatim>\<open>onTraceData\<close> returns
  \<open>dropped = 0\<close> and no error, and the transport channel receives one \<^verbatim>\<open>Send\<close> per span, in
  traversal order: \<open>SpanCount\<close> calls in all.
\<close>

theorem onTraceData_all_built:
  assumes "\<forall>t \<in> set (triples traceData). \<not> isl (built b e t)"
  shows "fst (onTraceData b e traceData w) = (0, None)
       \<and> calls (snd (onTraceData b e traceData w)) =
           calls w @ map (sendOf b e) (triples traceData)
       \<and> int (length (map (sendOf b e) (triples traceData))) = SpanCount traceData"
proof -
  have tw: "takeWhile (\<lambda>t. \<not> isl (built b e t)) (triples traceData) = triples traceData"
    using assms by simp
  show ?thesis
    by (simp add: onTraceData_result onTraceData_calls tw SpanCount_triples Let_def)
qed

theorem onTraceData_all_built_witness:
  "fst (onTraceData sampleBuilder (sampleExporter ''ikey'')
          [((), [((), [1]), ((), [3])]), ((), [((), [4])])] emptyWorld) = (0, None)
   \<and> calls (snd (onTraceData sampleBuilder (sampleExporter ''ikey'')
          [((), [((), [1]), ((), [3])]), ((), [((), [4])])] emptyWorld))
     = [(0, SendCall \<lparr>IKey = ''ikey'', Name = ''Request'', Time = [], Data = 1\<rparr>),
        (0, SendCall \<lparr>IKey = ''ikey'', Name = ''Request'', Time = [], Data = 3\<rparr>),
        (0, SendCall \<lparr>IKey = ''ikey'', Name = ''Request'', Time = [], Data = 4\<rparr>)]"
  using onTraceData_all_built [of "[((), [((), [1]), ((), [3])]), ((), [((), [4])])]"
      sampleBuilder "sampleExporter ''ikey''" emptyWorld]
  by (simp add: sample_defs triples_def built_def sendOf_def SpanCount_def)

text \<open>
  C3, as the code has it. Every call that \<^verbatim>\<open>onTraceData\<close> adds to those the transport
  channels have received is a \<^verbatim>\<open>Send\<close> on the exporter's channel of an envelope whose \<^verbatim>\<open>IKey\<close>
  is the \<^verbatim>\<open>InstrumentationKey\<close> of the exporter's configuration; the earlier calls are
  untouched. The key is whatever the configuration holds: nothing makes it non-empty.
\<close>

theorem onTraceData_stamps_key:
  "take (length (calls w)) (calls (snd (onTraceData b e traceData w))) = calls w
   \<and> (\<forall>c \<in> set (drop (length (calls w)) (calls (snd (onTraceData b e traceData w)))).
          \<exists>envelope. c = (transportChannel e, SendCall envelope)
            \<and> IKey envelope = InstrumentationKey (config e))"
  by (auto simp: onTraceData_calls sendOf_def)

theorem onTraceData_stamps_key_witness:
  "(0, SendCall \<lparr>IKey = ''ikey'', Name = ''Request'', Time = [], Data = 1\<rparr>)
     \<in> set (drop (length (calls emptyWorld))
         (calls (snd (onTraceData sampleBuilder (sampleExporter ''ikey'')
            [((), [((), [1, 2, 3])])] emptyWorld))))
   \<and> (\<exists>envelope.
         (0, SendCall \<lparr>IKey = ''ikey'', Name = ''Request'', Time = [], Data = 1::nat\<rparr>)
           = (transportChannel (sampleExporter ''ikey''), SendCall envelope)
         \<and> IKey envelope = InstrumentationKey (config (sampleExporter ''ikey'')))"
proof -
  have mem: "(0, SendCall \<lparr>IKey = ''ikey'', Name = ''Request'', Time = [], Data = 1\<rparr>)
     \<in> set (drop (length (calls emptyWorld))
         (calls (snd (onTraceData sampleBuilder (sampleExporter ''ikey'')
            [((), [((), [1, 2, 3])])] emptyWorld))))"
    by (simp add: sample_defs eval_defs)
  have all: "\<forall>c \<in> set (drop (length (calls emptyWorld))
         (calls (snd (onTraceData sampleBuilder (sampleExporter ''ikey'')
            [((), [((), [1, 2, 3])])] emptyWorld)))).
          \<exists>envelope. c = (transportChannel (sampleExporter ''ikey''), SendCall envelope)
            \<and> IKey envelope = InstrumentationKey (config (sampleExporter ''ikey''))"
    using onTraceData_stamps_key [of emptyWorld sampleBuilder "sampleExporter ''ikey''"
      "[((), [((), [1, 2, 3])])]"]
    by (rule conjunct2)
  have ex: "\<exists>envelope.
         (0, SendCall \<lparr>IKey = ''ikey'', Name = ''Request'', Time = [], Data = 1::nat\<rparr>)
           = (transportChannel (sampleExporter ''ikey''), SendCall envelope)
         \<and> IKey envelope = InstrumentationKey (config (sampleExporter ''ikey''))"
    using all mem by (rule bspec)
  from mem ex show ?thesis by (rule conjI)
qed

text \<open>
  C3, as the claim has it, fails. The factory makes an exporter of the default
  configuration, whose key is empty, without complaint; the envelope that this exporter
  hands to \<^verbatim>\<open>Send\<close> for a one-span batch carries the empty key.
\<close>

theorem onTraceData_empty_key_counterexample:
  "fst (createTraceExporter (\<lambda>c l e. Inr e) NewFactory \<lparr>Logger = sampleLogger InfoLevel\<rparr>
          (OwnConfig createDefaultConfig) emptyWorld) = Returns (Inr (sampleExporter []))
   \<and> calls (snd (onTraceData sampleBuilder (sampleExporter []) [((), [((), [1])])] emptyWorld))
       = [(0, SendCall \<lparr>IKey = [], Name = ''Request'', Time = [], Data = 1\<rparr>)]"
  by (simp add: sample_defs eval_defs createTraceExporter_def getTransportChannel_def
        NewFactory_def newTraceExporter_def NewTelemetryClientFromConfig_def Channel_def
        Check_def NewTelemetryConfiguration_def)

text \<open>
  C4. Whatever the batch and the builder, the dropped count that \<^verbatim>\<open>onTraceData\<close> returns is
  at least 0 and at most \<open>SpanCount\<close>.
\<close>

theorem onTraceData_dropped_bounds:
  "0 \<le> fst (fst (onTraceData b e traceData w))
     \<and> fst (fst (onTraceData b e traceData w)) \<le> SpanCount traceData"
proof -
  have "length (takeWhile (\<lambda>t. \<not> isl (built b e t)) (triples traceData))
          \<le> length (triples traceData)"
    by (rule length_takeWhile_le)
  then show ?thesis
    by (simp add: onTraceData_result SpanCount_triples Let_def)
qed

text \<open>
  C5. On a batch with \<open>SpanCount = 0\<close>, \<^verbatim>\<open>onTraceData\<close> returns \<open>(0, nil)\<close>; the transport
  channels receive no call, and all that happens is the debug log line of the count.
\<close>

theorem onTraceData_empty_batch:
  assumes "SpanCount traceData = 0"
  shows "fst (onTraceData b e traceData w) = (0, None)
       \<and> calls (snd (onTraceData b e traceData w)) = calls w
       \<and> snd (onTraceData b e traceData w) =
           Debug (logger e) ''Exporting spans'' [IntField ''Count'' 0] w"
  using assms by (simp add: onTraceData_def Debug_def)

text \<open>A batch of one resource with one library group that has no spans.\<close>

theorem onTraceData_empty_batch_witness:
  "SpanCount [((), [((), []::nat list)])] = 0
   \<and> fst (onTraceData sampleBuilder (sampleExporter ''ikey'') [((), [((), [])])] emptyWorld)
       = (0, None)
   \<and> calls (snd (onTraceData sampleBuilder (sampleExporter ''ikey'') [((), [((), [])])] emptyWorld))
       = []"
proof -
  have h: "SpanCount [((), [((), []::nat list)])] = 0"
    by (simp add: SpanCount_def)
  show ?thesis
    using h onTraceData_empty_batch [OF h, of sampleBuilder "sampleExporter ''ikey''" emptyWorld]
    by (simp add: emptyWorld_def Debug_def)
qed

section \<open>The factory\<close>

lemma getTransportChannel_cached:
  "tChannel f = Some ch \<Longrightarrow> getTransportChannel f c lg w = (ch, f, w)"
  by (simp add: getTransportChannel_def)

lemma getTransportChannel_fresh:
  "tChannel f = None \<Longrightarrow>
     getTransportChannel f c lg w =
       (length (clients w), f\<lparr>tChannel := Some (length (clients w))\<rparr>,
        w\<lparr>clients := clients w @ [telemetryConfigurationOf c],
          listeners := listeners w @ diagnosticsFor lg\<rparr>)"
  by (cases "minLevel lg")
     (simp_all add: getTransportChannel_def NewTelemetryConfiguration_def
        NewTelemetryClientFromConfig_def Channel_def NewDiagnosticsMessageListener_def
        Check_def telemetryConfigurationOf_def diagnosticsFor_def)

lemma createTraceExporter_cached:
  "tChannel f = Some ch \<Longrightarrow>
     createTraceExporter helper f params cfg w = (created helper ch (params, cfg), f, w)"
  by (cases cfg)
     (simp_all add: createTraceExporter_def getTransportChannel_cached created_def
        newTraceExporter_def)

lemma createAll_cached:
  "tChannel f = Some ch \<Longrightarrow>
     createAll helper f cs w = (map (created helper ch) cs, f, w)"
  by (induction cs) (auto simp: createTraceExporter_cached)

text \<open>
  On a factory without a channel, the first call that hands over a \<^verbatim>\<open>*Config\<close> pointing to
  a configuration constructs the channel; no other call changes the factory or the
  telemetry library.
\<close>

lemma createAll_fresh:
  "tChannel f = None \<Longrightarrow>
     createAll helper f cs w =
       (map (created helper (length (clients w))) cs,
        (case ownCalls cs of
           [] \<Rightarrow> (f, w)
         | (c, lg) # later \<Rightarrow>
             (f\<lparr>tChannel := Some (length (clients w))\<rparr>,
              w\<lparr>clients := clients w @ [telemetryConfigurationOf c],
                listeners := listeners w @ diagnosticsFor lg\<rparr>)))"
proof (induction cs)
  case Nil
  show ?case by simp
next
  case (Cons call cs)
  obtain params cfg where call: "call = (params, cfg)" by (cases call)
  show ?case
  proof (cases cfg)
    case (OwnConfig c)
    have "createTraceExporter helper f params cfg w =
            (created helper (length (clients w)) (params, cfg),
             f\<lparr>tChannel := Some (length (clients w))\<rparr>,
             w\<lparr>clients := clients w @ [telemetryConfigurationOf c],
               listeners := listeners w @ diagnosticsFor (Logger params)\<rparr>)"
      using Cons.prems
      by (simp add: OwnConfig createTraceExporter_def getTransportChannel_fresh created_def
            newTraceExporter_def)
    then show ?thesis
      by (simp add: call OwnConfig createAll_cached)
  next
    case NilOwnConfig
    then show ?thesis
      using Cons by (simp add: call createTraceExporter_def created_def)
  next
    case (ForeignConfig other)
    then show ?thesis
      using Cons by (simp add: call createTraceExporter_def created_def)
  next
    case NilConfig
    then show ?thesis
      using Cons by (simp add: call createTraceExporter_def created_def)
  qed
qed




text \<open>
  C7. For the exporter that \<^verbatim>\<open>newTraceExporter\<close> makes of a configuration, \<^verbatim>\<open>Shutdown\<close> makes
  one call to the transport channel, \<^verbatim>\<open>Close\<close> with the configuration's \<^verbatim>\<open>ShutdownTimeout\<close>.
  If the signal that \<^verbatim>\<open>Close\<close> returns fires after \<open>d\<close>, \<^verbatim>\<open>Shutdown\<close> returns after \<open>d\<close> with a
  nil error; if the signal never fires, \<^verbatim>\<open>Shutdown\<close> never returns. It returns no error in
  any case.
\<close>

theorem Shutdown_closes_and_waits:
  assumes "newTraceExporter (\<lambda>c l e. Inr e) conf tc lg = Inr exp"
  shows "calls (snd (Shutdown transport exp w)) = calls w @ [(tc, CloseCall [ShutdownTimeout conf])]
       \<and> (\<forall>d. fst (Close transport tc [ShutdownTimeout conf]
                   (Info lg ''Shutting down trace exporter''
                      [DurationStringField ''Shutdown Timeout'' (ShutdownTimeout conf)] w))
                = FiresAfter d
              \<longrightarrow> fst (Shutdown transport exp w) = Returned d None)
       \<and> (fst (Close transport tc [ShutdownTimeout conf]
                   (Info lg ''Shutting down trace exporter''
                      [DurationStringField ''Shutdown Timeout'' (ShutdownTimeout conf)] w))
                = NeverFires
              \<longrightarrow> fst (Shutdown transport exp w) = Blocked)
       \<and> (\<forall>d e. fst (Shutdown transport exp w) \<noteq> Returned d (Some e))"
proof -
  have exp: "exp = \<lparr>config = conf, transportChannel = tc, logger = lg,
                    shutdownTimeout = ShutdownTimeout conf\<rparr>"
    using assms by (simp add: newTraceExporter_def)
  show ?thesis
    by (simp add: exp Shutdown_def Close_def Info_def Let_def split: Signal.splits)
qed

theorem Shutdown_closes_and_waits_witness:
  "newTraceExporter (\<lambda>c l e. Inr e) (createDefaultConfig\<lparr>InstrumentationKey := ''ikey''\<rparr>) 0
       (sampleLogger InfoLevel) = Inr (sampleExporter ''ikey'')
   \<and> calls (snd (Shutdown (\<lambda>ch timeouts w. FiresAfter 3) (sampleExporter ''ikey'') emptyWorld))
       = [(0, CloseCall [5000000000])]
   \<and> fst (Shutdown (\<lambda>ch timeouts w. FiresAfter 3) (sampleExporter ''ikey'') emptyWorld)
       = Returned 3 None"
proof -
  have h: "newTraceExporter (\<lambda>c l e. Inr e)
             (createDefaultConfig\<lparr>InstrumentationKey := ''ikey''\<rparr>) 0
             (sampleLogger InfoLevel) = Inr (sampleExporter ''ikey'')"
    by (simp add: newTraceExporter_def sample_defs)
  show ?thesis
    using h Shutdown_closes_and_waits [OF h, of "\<lambda>ch timeouts w. FiresAfter 3" emptyWorld]
    by (simp add: Close_def createDefaultConfig_def Second_def emptyWorld_def)
qed

text \<open>
  C8. After any sequence of \<^verbatim>\<open>createTraceExporter\<close> calls on a new factory, the telemetry
  library has constructed one client (and so one channel) more than before if some call
  handed over a \<^verbatim>\<open>*Config\<close> pointing to a configuration, and none otherwise; the factory
  holds that channel; and every call that made an exporter bound it to that one channel.
\<close>

theorem createAll_one_channel:
  "fst (createAll helper NewFactory cs w) = map (created helper (length (clients w))) cs
   \<and> length (clients (snd (snd (createAll helper NewFactory cs w)))) =
         length (clients w) + (if ownCalls cs = [] then 0 else 1)
   \<and> tChannel (fst (snd (createAll helper NewFactory cs w))) =
         (if ownCalls cs = [] then None else Some (length (clients w)))"
  by (auto simp: createAll_fresh NewFactory_def split: list.splits)

theorem createAll_one_channel_witness:
  "fst (createAll (\<lambda>c l e. Inr e) NewFactory sampleCalls emptyWorld)
     = [Returns (Inl errUnexpectedConfigurationType),
        Returns (Inr \<lparr>config = createDefaultConfig\<lparr>InstrumentationKey := ''first''\<rparr>,
             transportChannel = 0, logger = sampleLogger DebugLevel,
             shutdownTimeout = 5 * Second\<rparr>),
        Returns (Inr \<lparr>config = createDefaultConfig\<lparr>InstrumentationKey := ''second''\<rparr>,
             transportChannel = 0, logger = sampleLogger InfoLevel,
             shutdownTimeout = 5 * Second\<rparr>)]
   \<and> length (clients (snd (snd (createAll (\<lambda>c l e. Inr e :: string + traceExporter)
         NewFactory sampleCalls emptyWorld)))) = 1
   \<and> tChannel (fst (snd (createAll (\<lambda>c l e. Inr e :: string + traceExporter)
         NewFactory sampleCalls emptyWorld))) = Some 0"
  using createAll_one_channel [of "\<lambda>c l e. Inr e" sampleCalls emptyWorld]
  by (simp add: sampleCalls_def created_def sample_defs)

text \<open>
  C9. After any sequence of \<^verbatim>\<open>createTraceExporter\<close> calls on a new factory, the diagnostics
  listeners registered are those of before and at most one more: the forwarder to the
  logger of the first call that handed over a \<^verbatim>\<open>*Config\<close> pointing to a configuration, and
  only if that logger has the debug level enabled. A single \<^verbatim>\<open>getTransportChannel\<close> registers it only while the factory
  has no channel yet and the logger has the debug level enabled. Run on a message, the
  forwarder calls \<^verbatim>\<open>Debug\<close> of that logger with the message and returns nil.
\<close>

theorem diagnostics_listener_gated:
  "listeners (snd (snd (createAll helper NewFactory cs w))) = listeners w @
         (case ownCalls cs of
            [] \<Rightarrow> []
          | (c, lg) # later \<Rightarrow> if minLevel lg = DebugLevel then [DebugForwarder lg] else [])
   \<and> length (listeners (snd (snd (createAll helper NewFactory cs w)))) \<le> length (listeners w) + 1
   \<and> listeners (snd (snd (getTransportChannel f c1 lg1 w))) = listeners w @
         (if tChannel f = None \<and> minLevel lg1 = DebugLevel then [DebugForwarder lg1] else [])
   \<and> invoke (DebugForwarder lg1) msg w =
         (None, w\<lparr>logged := logged w @ [(lg1, DebugLevel, msg, [])]\<rparr>)"
proof -
  have seq: "listeners (snd (snd (createAll helper NewFactory cs w))) = listeners w @
         (case ownCalls cs of
            [] \<Rightarrow> []
          | (c, lg) # later \<Rightarrow> if minLevel lg = DebugLevel then [DebugForwarder lg] else [])"
    by (auto simp: createAll_fresh NewFactory_def diagnosticsFor_def split: list.splits)
  have once: "length (listeners (snd (snd (createAll helper NewFactory cs w))))
                \<le> length (listeners w) + 1"
    by (simp add: seq split: list.splits)
  have single: "listeners (snd (snd (getTransportChannel f c1 lg1 w))) = listeners w @
         (if tChannel f = None \<and> minLevel lg1 = DebugLevel then [DebugForwarder lg1] else [])"
    by (cases "tChannel f")
       (simp_all add: getTransportChannel_fresh getTransportChannel_cached diagnosticsFor_def)
  show ?thesis
    using seq once single by (simp add: Debug_def)
qed

text \<open>
  With the debug logger first, one forwarder to it; with the calls in reverse order, the
  info logger comes first and no listener is registered, though a debug logger follows.
\<close>

theorem diagnostics_listener_gated_witness:
  "listeners (snd (snd (createAll (\<lambda>c l e. Inr e :: string + traceExporter) NewFactory
       sampleCalls emptyWorld))) = [DebugForwarder (sampleLogger DebugLevel)]
   \<and> listeners (snd (snd (createAll (\<lambda>c l e. Inr e :: string + traceExporter) NewFactory
       (rev sampleCalls) emptyWorld))) = []"
  using diagnostics_listener_gated [of "\<lambda>c l e. Inr e" sampleCalls emptyWorld]
    diagnostics_listener_gated [of "\<lambda>c l e. Inr e" "rev sampleCalls" emptyWorld]
  by (simp add: sampleCalls_def sample_defs)

text \<open>
  C10. Once the factory holds a channel, \<^verbatim>\<open>getTransportChannel\<close> returns it and changes
  nothing, whatever configuration and logger it is given. So after any sequence of
  \<^verbatim>\<open>createTraceExporter\<close> calls on a new factory, the telemetry configuration of the one client
  (key, endpoint, batch size, batch interval) and the diagnostics listener are those of the
  first call that got through \<^verbatim>\<open>getTransportChannel\<close>: the later calls do not show.
\<close>

theorem later_calls_ignore_arguments:
  assumes "ownCalls cs = (c0, lg0) # later"
  shows "snd (createAll helper NewFactory cs w) =
           (\<lparr>tChannel = Some (length (clients w))\<rparr>,
            w\<lparr>clients := clients w @
                 [\<lparr>tcInstrumentationKey = InstrumentationKey c0, EndpointUrl = Endpoint c0,
                   tcMaxBatchSize = MaxBatchSize c0,
                   tcMaxBatchInterval = MaxBatchInterval c0\<rparr>],
              listeners := listeners w @
                 (if minLevel lg0 = DebugLevel then [DebugForwarder lg0] else [])\<rparr>)
       \<and> (\<forall>f ch c lg. tChannel f = Some ch \<longrightarrow> getTransportChannel f c lg w = (ch, f, w))"
  using assms
  by (simp add: createAll_fresh NewFactory_def telemetryConfigurationOf_def diagnosticsFor_def
        getTransportChannel_cached)

theorem later_calls_ignore_arguments_witness:
  "ownCalls sampleCalls =
     [(createDefaultConfig\<lparr>InstrumentationKey := ''first''\<rparr>, sampleLogger DebugLevel),
      (createDefaultConfig\<lparr>InstrumentationKey := ''second''\<rparr>, sampleLogger InfoLevel)]
   \<and> snd (createAll (\<lambda>c l e. Inr e :: string + traceExporter) NewFactory sampleCalls emptyWorld)
     = (\<lparr>tChannel = Some 0\<rparr>,
        \<lparr>clients = [\<lparr>tcInstrumentationKey = ''first'', EndpointUrl = defaultEndpoint,
                     tcMaxBatchSize = 1024, tcMaxBatchInterval = 10 * Second\<rparr>],
         listeners = [DebugForwarder (sampleLogger DebugLevel)], calls = [], logged = []\<rparr>)"
proof -
  have h: "ownCalls sampleCalls =
     (createDefaultConfig\<lparr>InstrumentationKey := ''first''\<rparr>, sampleLogger DebugLevel) #
     [(createDefaultConfig\<lparr>InstrumentationKey := ''second''\<rparr>, sampleLogger InfoLevel)]"
    by (simp add: sampleCalls_def)
  show ?thesis
    using h later_calls_ignore_arguments [OF h, of "\<lambda>c l e. Inr e" emptyWorld]
    by (simp add: sample_defs)
qed

end
